theory Spec2Isabelle
  imports Main "HOL-Library.Multiset"
begin

section \<open>LexUse: the candidate-selection and exclusion workflow of \<^verbatim>\<open>util.py\<close>\<close>

text \<open>
  The functions of \<^verbatim>\<open>src/util.py\<close> are embedded as state transformers over a
  \<open>world\<close>: the exclusion file, the lines the operator will type, the login session
  and the list of things the process has done so far. A Python exception or a call of
  \<^verbatim>\<open>exit\<close> is the left summand of the result. Calls of \<^verbatim>\<open>logging.debug\<close> have no
  effect on the control flow and are left out.
\<close>

subsection \<open>Errors\<close>

datatype exn = JSONDecodeError | KeyError | TypeError | ValueError | IndexError | EOFError
  | AttributeError | CollaboratorError

datatype error = Exit int | Raised exn

text \<open>The exit status of the Python process: \<^verbatim>\<open>exit(n)\<close> gives \<open>n\<close>, an uncaught
  exception prints its traceback and gives 1.\<close>

fun exit_code :: "error \<Rightarrow> int" where
  "exit_code (Exit n) = n"
| "exit_code (Raised x) = 1"

subsection \<open>Data\<close>

text \<open>One row of the form query (\<^verbatim>\<open>fetch_lexeme_forms\<close>): each binding is kept by its
  \<^verbatim>\<open>["value"]\<close>.\<close>

record row =
  l_value :: string
  form_value :: string
  word_value :: string
  catLabel_value :: string

text \<open>The dictionary \<^verbatim>\<open>extract_data\<close> returns.\<close>

record data =
  lid :: string
  form_id :: string
  word :: string
  word_spaces :: string
  word_angle_parens :: string
  category :: string

text \<open>A row of the sense query, and an entry of the dictionary \<^verbatim>\<open>fetch_senses\<close>
  builds. That dictionary has the keys \<open>1, \<dots>, n\<close> in this order: it is modelled as the
  list of its values, \<^verbatim>\<open>senses[k]\<close> being element \<open>k - 1\<close>.\<close>

record sense_row =
  sense_value :: string
  gloss_value :: string

record sense =
  sense_id :: string
  gloss :: string

text \<open>What the corpus collaborator gives for one sentence.\<close>

record result_data =
  document_id :: string
  date :: "string option"

text \<open>JSON values as \<^verbatim>\<open>json.loads\<close> returns them, and the content of the exclusion
  file: empty, text that \<^verbatim>\<open>json.loads\<close> rejects, or text that it parses. An object is
  the list of its members in the order of the Python dictionary.\<close>

datatype json = JNull | JBool bool | JNum int | JStr string | JArr "json list"
  | JObj "(string \<times> json) list"

datatype content = Text_empty | Text_invalid | Text_json json

text \<open>The arguments of one call of \<^verbatim>\<open>add_usage_example\<close>: document id, sentence,
  entry id, form id, sense id, word, publication date.\<close>

datatype edit = Edit string string string string string string "string option"

datatype query = Count_query string | Senses_query string string

datatype message =
    No_lexemes_found string
  | Publication_date_missing
  | Did_not_understand
  | Cancelled_sentence
  | Added_to_watchlist string
  | Watch_response string
  | Cancelled_only_sense string
  | Found_senses nat
  | Gloss_missing string
  | Trying_to_find string string string
  | Successfully_added string
  | Data_was_None
  | Json_data_is_null
  | Presenting_sentence nat nat
  | With_document string "string option"
  | Excluded_no_sentences
  | Got_forms nat
  | Going_at_random
  | No_more_results
  | Item_json edit
  | Logging_in

datatype question =
    Only_one_sense string
  | Choose_sense "string list"
  | Suitable_sentence nat string string

datatype event =
    Printed message
  | Prompted question
  | Slept nat
  | Queried query
  | Corpus_searched data
  | Claim_built edit
  | Logged_in
  | Item_written edit
  | Watch_requested string
  | Entered_present_sentence string
  | Entered_add_usage_example edit
  | Entered_save_to_exclude_list "data option"

record world =
  exclude_file :: "content option"
  stdin :: "string list"
  login_instance :: bool
  events :: "event list"

text \<open>The module \<^verbatim>\<open>config\<close> is not part of the sources at hand: its settings are a
  parameter.\<close>

record config =
  language :: string
  language_code :: string
  sparql_results_size :: int
  debug_json :: bool
  debug_sentences :: bool

text \<open>The collaborators: the query endpoint, the corpus search (\<^verbatim>\<open>riksdagen\<close>), the
  write library (\<^verbatim>\<open>wikibaseintegrator\<close>), the watch-list API, the clock and the two
  parsers of the Python library. Each is a function of its arguments; a failure is an
  error. The value \<^verbatim>\<open>item.write\<close> returns is only tested for truth, so its truth value
  is kept.\<close>

record services =
  senses_endpoint :: "string \<Rightarrow> string \<Rightarrow> error + sense_row list"
  count_endpoint :: "string \<Rightarrow> error + int list"
  get_records :: "data \<Rightarrow> error + (string \<times> result_data) list"
  fromisoformat :: "string \<Rightarrow> string option"
  build_claim :: "edit \<Rightarrow> error + unit"
  login :: "error + unit"
  item_write :: "edit \<Rightarrow> error + bool"
  watch :: "string \<Rightarrow> error + string"
  now_isoformat :: string
  int_of_str :: "string \<Rightarrow> int option"

subsection \<open>Sequencing\<close>

definition emit :: "event \<Rightarrow> world \<Rightarrow> world" where
  "emit e w = w\<lparr>events := events w @ [e]\<rparr>"

definition and_then ::
  "(world \<Rightarrow> (error + 'a) \<times> world) \<Rightarrow> ('a \<Rightarrow> world \<Rightarrow> (error + 'b) \<times> world)
    \<Rightarrow> world \<Rightarrow> (error + 'b) \<times> world" where
  "and_then m f w = (case m w of (Inl e, w') \<Rightarrow> (Inl e, w') | (Inr x, w') \<Rightarrow> f x w')"

definition say :: "message \<Rightarrow> world \<Rightarrow> (error + unit) \<times> world" where
  "say m w = (Inr (), emit (Printed m) w)"

definition sleep :: "nat \<Rightarrow> world \<Rightarrow> (error + unit) \<times> world" where
  "sleep n w = (Inr (), emit (Slept n) w)"

definition returns :: "'a \<Rightarrow> world \<Rightarrow> (error + 'a) \<times> world" where
  "returns x w = (Inr x, w)"

definition raise :: "error \<Rightarrow> world \<Rightarrow> (error + 'a) \<times> world" where
  "raise e w = (Inl e, w)"

subsection \<open>Strings\<close>

text \<open>\<^verbatim>\<open>s.replace(p, "")\<close>: every occurrence of \<open>p\<close>, from the left, is removed.\<close>

fun remove_all :: "string \<Rightarrow> string \<Rightarrow> string" where
  "remove_all p [] = []"
| "remove_all p (c # cs) =
     (if p \<noteq> [] \<and> take (length p) (c # cs) = p
      then remove_all p (drop (length p) (c # cs))
      else c # remove_all p cs)"

definition wd_prefix :: string where
  "wd_prefix = ''http://www.wikidata.org/entity/''"

text \<open>\<^verbatim>\<open>str.isspace\<close> on the code points below 256, \<^verbatim>\<open>str.strip()\<close> and
  \<^verbatim>\<open>str.split(" ")\<close>.\<close>

definition isspace :: "char \<Rightarrow> bool" where
  "isspace c = (let n = (of_char c :: nat) in
     (9 \<le> n \<and> n \<le> 13) \<or> (28 \<le> n \<and> n \<le> 32) \<or> n = 133 \<or> n = 160)"

definition strip :: "string \<Rightarrow> string" where
  "strip s = rev (dropWhile isspace (rev (dropWhile isspace s)))"

fun split_at :: "char \<Rightarrow> string \<Rightarrow> string list" where
  "split_at c [] = [[]]"
| "split_at c (x # xs) =
     (if x = c then [] # split_at c xs
      else (case split_at c xs of [] \<Rightarrow> [[x]] | u # us \<Rightarrow> (x # u) # us))"

definition count_words :: "string \<Rightarrow> nat" where
  "count_words string = length (split_at CHR '' '' (strip string))"

text \<open>\<^verbatim>\<open>str.lower()\<close> on one ASCII character.\<close>

definition lower :: "char \<Rightarrow> char" where
  "lower c = (let n = (of_char c :: nat) in if 65 \<le> n \<and> n \<le> 90 then char_of (n + 32) else c)"

subsection \<open>Prompts\<close>

text \<open>\<^verbatim>\<open>input\<close> shows the prompt and takes the next line of \<open>stdin\<close>; at the end of
  the input it raises \<^verbatim>\<open>EOFError\<close>. The loops of the two questions run once per line
  read.\<close>

fun yes_no_skip_loop :: "question \<Rightarrow> string list \<Rightarrow> world \<Rightarrow> (error + bool option) \<times> world" where
  "yes_no_skip_loop message [] w = (Inl (Raised EOFError), (emit (Prompted message) w)\<lparr>stdin := []\<rparr>)"
| "yes_no_skip_loop message (answer # rest) w =
     (let w' = (emit (Prompted message) w)\<lparr>stdin := rest\<rparr> in
      if length answer = 0 \<or> lower (hd answer) \<in> {CHR ''y'', CHR ''n'', CHR ''s''} then
        if length answer = 0 then (Inr (Some True), w')
        else if lower (hd answer) = CHR ''s'' then (Inr None, w')
        else (Inr (Some (lower (hd answer) = CHR ''y'')), w')
      else yes_no_skip_loop message rest w')"

definition yes_no_skip_question :: "question \<Rightarrow> world \<Rightarrow> (error + bool option) \<times> world" where
  "yes_no_skip_question message w = yes_no_skip_loop message (stdin w) w"

fun yes_no_loop :: "question \<Rightarrow> string list \<Rightarrow> world \<Rightarrow> (error + bool) \<times> world" where
  "yes_no_loop message [] w = (Inl (Raised EOFError), (emit (Prompted message) w)\<lparr>stdin := []\<rparr>)"
| "yes_no_loop message (answer # rest) w =
     (let w' = (emit (Prompted message) w)\<lparr>stdin := rest\<rparr> in
      if length answer = 0 \<or> lower (hd answer) \<in> {CHR ''y'', CHR ''n''} then
        if length answer = 0 then (Inr True, w')
        else (Inr (lower (hd answer) = CHR ''y''), w')
      else yes_no_loop message rest w')"

definition yes_no_question :: "question \<Rightarrow> world \<Rightarrow> (error + bool) \<times> world" where
  "yes_no_question message w = yes_no_loop message (stdin w) w"

subsection \<open>Queries\<close>

text \<open>\<^verbatim>\<open>sparql_query\<close>, given what the endpoint answers to the query: an empty list of
  bindings ends the process with status 0, whoever the caller is.\<close>

definition sparql_query ::
  "config \<Rightarrow> query \<Rightarrow> error + 'r list \<Rightarrow> world \<Rightarrow> (error + 'r list) \<times> world" where
  "sparql_query cfg q response w =
     (let w1 = emit (Queried q) w in
      case response of
        Inl e \<Rightarrow> (Inl e, w1)
      | Inr results \<Rightarrow>
          if length results = 0
          then (Inl (Exit 0), emit (Printed (No_lexemes_found (language cfg))) w1)
          else (Inr results, w1))"

definition count_number_of_senses_with_P5137 ::
  "config \<Rightarrow> services \<Rightarrow> string \<Rightarrow> world \<Rightarrow> (error + int) \<times> world" where
  "count_number_of_senses_with_P5137 cfg srv entry =
     and_then (sparql_query cfg (Count_query entry) (count_endpoint srv entry))
       (\<lambda>result. case result of [] \<Rightarrow> raise (Raised IndexError) | n # rest \<Rightarrow> returns n)"

definition fetch_senses ::
  "config \<Rightarrow> services \<Rightarrow> string \<Rightarrow> world \<Rightarrow> (error + sense list) \<times> world" where
  "fetch_senses cfg srv entry =
     and_then (sparql_query cfg (Senses_query entry (language_code cfg))
                 (senses_endpoint srv entry (language_code cfg)))
       (\<lambda>result. returns
          (map (\<lambda>r. \<lparr>sense_id = remove_all wd_prefix (sense_value r), gloss = gloss_value r\<rparr>)
             result))"

definition extract_data :: "row \<Rightarrow> data" where
  "extract_data result =
     \<lparr>lid = remove_all wd_prefix (l_value result),
      form_id = remove_all wd_prefix (form_value result),
      word = word_value result,
      word_spaces = '' '' @ word_value result @ '' '',
      word_angle_parens = ''>'' @ word_value result @ ''<'',
      category = catLabel_value result\<rparr>"

subsection \<open>Submitting a usage example\<close>

text \<open>\<^verbatim>\<open>add_usage_example\<close>: without a publication date it prints and returns
  \<^verbatim>\<open>False\<close>; with one, the date is parsed, the statement is built, the session is
  opened when there is none yet, and the item is written.\<close>

definition add_usage_example ::
  "config \<Rightarrow> services \<Rightarrow> string \<Rightarrow> string \<Rightarrow> string \<Rightarrow> string \<Rightarrow> string \<Rightarrow> string
    \<Rightarrow> string option \<Rightarrow> world \<Rightarrow> (error + bool) \<times> world" where
  "add_usage_example cfg srv doc sentence entry form sid wrd publication_date w =
     (let e = Edit doc sentence entry form sid wrd publication_date;
          w0 = emit (Entered_add_usage_example e) w in
      case publication_date of
        None \<Rightarrow> (Inr False, emit (Printed Publication_date_missing) w0)
      | Some d \<Rightarrow>
          (case fromisoformat srv d of
             None \<Rightarrow> (Inl (Raised ValueError), w0)
           | Some parsed \<Rightarrow>
               (case build_claim srv e of
                  Inl x \<Rightarrow> (Inl x, w0)
                | Inr u \<Rightarrow>
                    (let w1 = emit (Claim_built e) w0;
                         w2 = (if debug_json cfg then emit (Printed (Item_json e)) w1 else w1) in
                     case (if login_instance w2
                           then (Inr (), w2)
                           else (case login srv of
                                   Inl x \<Rightarrow> (Inl x, emit (Printed Logging_in) w2)
                                 | Inr u \<Rightarrow>
                                     (Inr (), (emit Logged_in (emit (Printed Logging_in) w2))
                                                \<lparr>login_instance := True\<rparr>))) of
                       (Inl x, w3) \<Rightarrow> (Inl x, w3)
                     | (Inr u, w3) \<Rightarrow>
                         (case item_write srv e of
                            Inl x \<Rightarrow> (Inl x, w3)
                          | Inr result \<Rightarrow> (Inr result, emit (Item_written e) w3))))))"

definition add_to_watchlist ::
  "config \<Rightarrow> services \<Rightarrow> string \<Rightarrow> world \<Rightarrow> (error + unit) \<times> world" where
  "add_to_watchlist cfg srv entry w =
     (if \<not> login_instance w then (Inl (Raised AttributeError), w)
      else case watch srv entry of
             Inl x \<Rightarrow> (Inl x, emit (Watch_requested entry) w)
           | Inr response \<Rightarrow>
               (let w1 = emit (Watch_requested entry) w;
                    w2 = (if debug_json cfg then emit (Printed (Watch_response response)) w1 else w1)
                in (Inr (), emit (Printed (Added_to_watchlist entry)) w2)))"

subsection \<open>Resolving the sense\<close>

text \<open>\<^verbatim>\<open>prompt_choose_sense\<close>: the menu is asked again after an answer that is not a
  number; a number from 1 to the number of senses chooses, any other number cancels
  (\<open>None\<close> is the \<^verbatim>\<open>False\<close> of the source).\<close>

fun prompt_choose_loop ::
  "services \<Rightarrow> sense list \<Rightarrow> string list \<Rightarrow> world \<Rightarrow> (error + sense option) \<times> world" where
  "prompt_choose_loop srv senses [] w =
     (Inl (Raised EOFError), (emit (Prompted (Choose_sense (map gloss senses))) w)\<lparr>stdin := []\<rparr>)"
| "prompt_choose_loop srv senses (answer # rest) w =
     (let w' = (emit (Prompted (Choose_sense (map gloss senses))) w)\<lparr>stdin := rest\<rparr> in
      case int_of_str srv answer of
        None \<Rightarrow> prompt_choose_loop srv senses rest (emit (Printed Did_not_understand) w')
      | Some choice \<Rightarrow>
          if choice > 0 \<and> choice \<le> int (length senses)
          then (Inr (Some (senses ! (nat choice - 1))), w')
          else (Inr None, emit (Printed Cancelled_sentence) w'))"

definition prompt_choose_sense ::
  "services \<Rightarrow> sense list \<Rightarrow> world \<Rightarrow> (error + sense option) \<times> world" where
  "prompt_choose_sense srv senses w = prompt_choose_loop srv senses (stdin w) w"

text \<open>The body of \<^verbatim>\<open>prompt_sense_approval\<close> after the senses are fetched. The result
  is the pair of sense id and gloss, or \<open>None\<close> for the \<^verbatim>\<open>False\<close> of the source. With
  no sense at all, the number of senses carrying the property P5137 is asked for, for
  the entry \<^verbatim>\<open>L35455\<close>.\<close>

definition prompt_sense_approval_on ::
  "config \<Rightarrow> services \<Rightarrow> data \<Rightarrow> sense list \<Rightarrow> world \<Rightarrow> (error + (string \<times> string) option) \<times> world"
  where
  "prompt_sense_approval_on cfg srv d senses =
     (let number_of_senses = length senses in
      if number_of_senses > 0 then
        if number_of_senses = 1 then
          and_then (yes_no_question (Only_one_sense (gloss (senses ! 0))))
            (\<lambda>yes. if yes then returns (Some (sense_id (senses ! 0), gloss (senses ! 0)))
                    else and_then (say (Cancelled_only_sense (word d)))
                           (\<lambda>u. and_then (sleep 5) (\<lambda>u. returns None)))
        else
          and_then (say (Found_senses number_of_senses))
            (\<lambda>u. and_then (prompt_choose_sense srv senses)
               (\<lambda>chosen. case chosen of
                             Some s \<Rightarrow> returns (Some (sense_id s, gloss s))
                           | None \<Rightarrow> returns None))
      else
        and_then (count_number_of_senses_with_P5137 cfg srv ''L35455'')
          (\<lambda>n. if n > 0
                then and_then (say (Gloss_missing (wd_prefix @ lid d)))
                       (\<lambda>u. and_then (sleep 5) (\<lambda>u. returns None))
                else returns None))"

definition prompt_sense_approval ::
  "config \<Rightarrow> services \<Rightarrow> string \<Rightarrow> data \<Rightarrow> world \<Rightarrow> (error + (string \<times> string) option) \<times> world"
  where
  "prompt_sense_approval cfg srv sentence d =
     and_then (fetch_senses cfg srv (lid d)) (prompt_sense_approval_on cfg srv d)"

subsection \<open>Curating the sentences of one form\<close>

text \<open>\<^verbatim>\<open>get_sentences_from_apis\<close> has no \<^verbatim>\<open>return\<close> statement: what the corpus
  search gives is dropped and the caller receives \<^verbatim>\<open>None\<close>.\<close>

definition get_sentences_from_apis ::
  "services \<Rightarrow> row \<Rightarrow> world \<Rightarrow> (error + (string \<times> result_data) list option) \<times> world" where
  "get_sentences_from_apis srv result w =
     (let d = extract_data result;
          w1 = emit (Printed (Trying_to_find (category d) (word d) (form_id d))) w;
          w2 = emit (Corpus_searched d) w1 in
      case get_records srv d of
        Inl x \<Rightarrow> (Inl x, w2)
      | Inr found \<Rightarrow> (Inr None, w2))"

text \<open>\<^verbatim>\<open>present_sentence\<close> returns \<^verbatim>\<open>True\<close>, \<^verbatim>\<open>False\<close> or \<^verbatim>\<open>None\<close>. When the
  operator accepts the sentence and no sense is approved, no \<^verbatim>\<open>return\<close> statement is
  reached and the value is \<^verbatim>\<open>None\<close>.\<close>

definition present_sentence ::
  "config \<Rightarrow> services \<Rightarrow> data \<Rightarrow> string \<Rightarrow> string \<Rightarrow> string option \<Rightarrow> world
    \<Rightarrow> (error + bool option) \<times> world" where
  "present_sentence cfg srv d sentence doc dt w =
     and_then (yes_no_skip_question (Suitable_sentence (count_words sentence) (word d) sentence))
       (\<lambda>result. case result of
          Some True \<Rightarrow>
            and_then (prompt_sense_approval cfg srv sentence d)
              (\<lambda>selected_sense. case selected_sense of
                 Some (sid, sense_gloss) \<Rightarrow>
                   and_then (add_usage_example cfg srv doc sentence (lid d) (form_id d) sid (word d) dt)
                     (\<lambda>written. if written
                        then and_then (say (Successfully_added (wd_prefix @ lid d)))
                               (\<lambda>u. and_then (add_to_watchlist cfg srv (lid d))
                                  (\<lambda>u. returns (Some True)))
                        else returns (Some False))
               | None \<Rightarrow> returns None)
        | None \<Rightarrow> returns None
        | Some False \<Rightarrow> returns (Some False))
       (emit (Entered_present_sentence sentence) w)"

subsection \<open>The exclusion list\<close>

text \<open>Storing into a Python dictionary: the value of an existing key is replaced where
  it stands, a new key goes to the end.\<close>

fun dict_set :: "'k \<Rightarrow> 'v \<Rightarrow> ('k \<times> 'v) list \<Rightarrow> ('k \<times> 'v) list" where
  "dict_set k v [] = [(k, v)]"
| "dict_set k v ((k', v') # kvs) =
     (if k' = k then (k, v) # kvs else (k', v') # dict_set k v kvs)"

definition form_data :: "config \<Rightarrow> services \<Rightarrow> data \<Rightarrow> json" where
  "form_data cfg srv d =
     JObj [(''word'', JStr (word d)), (''date'', JStr (now_isoformat srv)),
           (''lang'', JStr (language_code cfg))]"

text \<open>\<^verbatim>\<open>save_to_exclude_list\<close>. An existing file with content is opened for writing,
  which empties it, before its old text is parsed: when the text is rejected, or parses
  to something other than an object, the exception leaves the file empty.\<close>

definition save_to_exclude_list ::
  "config \<Rightarrow> services \<Rightarrow> data option \<Rightarrow> world \<Rightarrow> (error + unit) \<times> world" where
  "save_to_exclude_list cfg srv dopt w =
     (let w0 = emit (Entered_save_to_exclude_list dopt) w in
      case dopt of
        None \<Rightarrow> (Inl (Exit 1), emit (Printed Data_was_None) w0)
      | Some d \<Rightarrow>
          (case exclude_file w0 of
             Some Text_empty \<Rightarrow> (Inl (Exit 1), emit (Printed Json_data_is_null) w0)
           | Some Text_invalid \<Rightarrow>
               (Inl (Raised JSONDecodeError), w0\<lparr>exclude_file := Some Text_empty\<rparr>)
           | Some (Text_json (JObj exclude_list)) \<Rightarrow>
               (Inr (), w0\<lparr>exclude_file :=
                  Some (Text_json (JObj (dict_set (form_id d) (form_data cfg srv d) exclude_list)))\<rparr>)
           | Some (Text_json other) \<Rightarrow>
               (Inl (Raised TypeError), w0\<lparr>exclude_file := Some Text_empty\<rparr>)
           | None \<Rightarrow>
               (Inr (), w0\<lparr>exclude_file :=
                  Some (Text_json (JObj (dict_set (form_id d) (form_data cfg srv d) [])))\<rparr>)))"

text \<open>\<^verbatim>\<open>form_data["lang"]\<close> compared with the language code: a value that is not a
  dictionary raises \<^verbatim>\<open>TypeError\<close>, a dictionary without the key raises
  \<^verbatim>\<open>KeyError\<close>.\<close>

definition lang_matches :: "config \<Rightarrow> json \<Rightarrow> error + bool" where
  "lang_matches cfg fd =
     (case fd of
        JObj members \<Rightarrow>
          (case map_of members ''lang'' of
             None \<Rightarrow> Inl (Raised KeyError)
           | Some v \<Rightarrow> Inr (v = JStr (language_code cfg)))
      | other \<Rightarrow> Inl (Raised TypeError))"

text \<open>The loop of \<^verbatim>\<open>in_exclude_list\<close> over the keys of the parsed object: the key is
  compared with the entry id \<^verbatim>\<open>data["lid"]\<close>, and the language is looked at only
  when they are equal.\<close>

fun exclude_list_loop ::
  "config \<Rightarrow> string \<Rightarrow> (string \<times> json) list \<Rightarrow> string list \<Rightarrow> error + bool" where
  "exclude_list_loop cfg entry exclude_list [] = Inr False"
| "exclude_list_loop cfg entry exclude_list (key # keys) =
     (case map_of exclude_list key of
        None \<Rightarrow> Inl (Raised KeyError)
      | Some fd \<Rightarrow>
          if entry = key then
            (case lang_matches cfg fd of
               Inl x \<Rightarrow> Inl x
             | Inr True \<Rightarrow> Inr True
             | Inr False \<Rightarrow> exclude_list_loop cfg entry exclude_list keys)
          else exclude_list_loop cfg entry exclude_list keys)"

text \<open>The same loop over a parsed value that is a list: each element is used as an
  index into the list, and no element equals the entry id, which is a string.\<close>

fun list_index_ok :: "nat \<Rightarrow> json \<Rightarrow> error + unit" where
  "list_index_ok n (JNum i) = (if - int n \<le> i \<and> i < int n then Inr () else Inl (Raised IndexError))"
| "list_index_ok n (JBool b) = (if (if b then 1 else 0) < n then Inr () else Inl (Raised IndexError))"
| "list_index_ok n other = Inl (Raised TypeError)"

fun json_list_loop :: "nat \<Rightarrow> json list \<Rightarrow> error + bool" where
  "json_list_loop n [] = Inr False"
| "json_list_loop n (x # xs) =
     (case list_index_ok n x of Inl e \<Rightarrow> Inl e | Inr u \<Rightarrow> json_list_loop n xs)"

definition in_exclude_list :: "config \<Rightarrow> data \<Rightarrow> world \<Rightarrow> (error + bool) \<times> world" where
  "in_exclude_list cfg d w =
     (case exclude_file w of
        None \<Rightarrow> (Inr False, w)
      | Some Text_empty \<Rightarrow> (Inl (Raised JSONDecodeError), w)
      | Some Text_invalid \<Rightarrow> (Inl (Raised JSONDecodeError), w)
      | Some (Text_json (JObj exclude_list)) \<Rightarrow>
          (exclude_list_loop cfg (lid d) exclude_list (map fst exclude_list), w)
      | Some (Text_json (JArr xs)) \<Rightarrow> (json_list_loop (length xs) xs, w)
      | Some (Text_json (JStr s)) \<Rightarrow> (if s = [] then Inr False else Inl (Raised TypeError), w)
      | Some (Text_json other) \<Rightarrow> (Inl (Raised TypeError), w))"

text \<open>\<^verbatim>\<open>sorted(sentences_and_result_data, key=len)\<close>: the keys of the dictionary, in
  a stable sort by their length, which is the number of characters of a sentence.\<close>

definition sorted_sentences :: "(string \<times> result_data) list \<Rightarrow> string list" where
  "sorted_sentences sentences_and_result_data =
     sort_key length (map fst sentences_and_result_data)"

text \<open>The loop of \<^verbatim>\<open>process_result\<close> over the sorted sentences. It returns early,
  after saving to the exclusion list, when \<^verbatim>\<open>present_sentence\<close> gives \<^verbatim>\<open>True\<close> or
  \<^verbatim>\<open>None\<close>; when the sentences run out it returns without saving.\<close>

fun sentence_loop ::
  "config \<Rightarrow> services \<Rightarrow> data \<Rightarrow> (string \<times> result_data) list \<Rightarrow> nat \<Rightarrow> nat \<Rightarrow> string list
    \<Rightarrow> world \<Rightarrow> (error + unit) \<times> world" where
  "sentence_loop cfg srv d dict k n_total [] w = (Inr (), w)"
| "sentence_loop cfg srv d dict k n_total (sentence # rest) w =
     (let w1 = emit (Printed (Presenting_sentence k n_total)) w in
      case map_of dict sentence of
        None \<Rightarrow> (Inl (Raised KeyError), w1)
      | Some rd \<Rightarrow>
          (let w2 = (if debug_sentences cfg
                     then emit (Printed (With_document (document_id rd) (date rd))) w1
                     else w1) in
           case present_sentence cfg srv d sentence (document_id rd) (date rd) w2 of
             (Inl x, w3) \<Rightarrow> (Inl x, w3)
           | (Inr result, w3) \<Rightarrow>
               if result = Some True \<or> result = None
               then save_to_exclude_list cfg srv (Some d) w3
               else sentence_loop cfg srv d dict (k + 1) n_total rest w3))"

definition process_sentences ::
  "config \<Rightarrow> services \<Rightarrow> data \<Rightarrow> (string \<times> result_data) list \<Rightarrow> world \<Rightarrow> (error + unit) \<times> world"
  where
  "process_sentences cfg srv d sentences_and_result_data =
     sentence_loop cfg srv d sentences_and_result_data 1
       (length (sorted_sentences sentences_and_result_data))
       (sorted_sentences sentences_and_result_data)"

definition process_result ::
  "config \<Rightarrow> services \<Rightarrow> row \<Rightarrow> data \<Rightarrow> world \<Rightarrow> (error + unit) \<times> world" where
  "process_result cfg srv result d =
     and_then (get_sentences_from_apis srv result)
       (\<lambda>sentences_and_result_data. case sentences_and_result_data of
          Some dict \<Rightarrow> process_sentences cfg srv d dict
        | None \<Rightarrow> and_then (say Excluded_no_sentences)
                    (\<lambda>u. save_to_exclude_list cfg srv (Some d)))"

subsection \<open>Sampling the rows\<close>

text \<open>The \<^verbatim>\<open>while True\<close> loop of \<^verbatim>\<open>process_lexeme_data\<close>. Each pass that does not
  exit calls \<^verbatim>\<open>random.choice(results)\<close>: the numbers it will draw are the list
  \<open>draws\<close>, a number \<open>n\<close> choosing the row at position \<open>n mod length results\<close>. The loop
  leaves only through \<^verbatim>\<open>exit\<close> or an exception (\<open>Some\<close> of the error); \<open>None\<close> says
  that the loop is still running when the draws given are used up.\<close>

fun sampling_loop ::
  "config \<Rightarrow> services \<Rightarrow> row list \<Rightarrow> nat list \<Rightarrow> row list \<Rightarrow> world \<Rightarrow> error option \<times> world"
  where
  "sampling_loop cfg srv results [] earlier_choices w =
     (if int (length earlier_choices) = sparql_results_size cfg
      then (Some (Exit 0), emit (Printed No_more_results) w)
      else if results = [] then (Some (Raised IndexError), w)
      else (None, w))"
| "sampling_loop cfg srv results (n # draws) earlier_choices w =
     (if int (length earlier_choices) = sparql_results_size cfg
      then (Some (Exit 0), emit (Printed No_more_results) w)
      else if results = [] then (Some (Raised IndexError), w)
      else
        (let result = results ! (n mod length results) in
         if result \<notin> set earlier_choices then
           (case in_exclude_list cfg (extract_data result) w of
              (Inl x, w1) \<Rightarrow> (Some x, w1)
            | (Inr True, w1) \<Rightarrow> sampling_loop cfg srv results draws (earlier_choices @ [result]) w1
            | (Inr False, w1) \<Rightarrow>
                (case process_result cfg srv result (extract_data result) w1 of
                   (Inl x, w2) \<Rightarrow> (Some x, w2)
                 | (Inr u, w2) \<Rightarrow>
                     sampling_loop cfg srv results draws (earlier_choices @ [result]) w2))
         else sampling_loop cfg srv results draws earlier_choices w))"

definition process_lexeme_data ::
  "config \<Rightarrow> services \<Rightarrow> row list \<Rightarrow> nat list \<Rightarrow> world \<Rightarrow> error option \<times> world" where
  "process_lexeme_data cfg srv results draws w =
     (let words = map (\<lambda>result. word (extract_data result)) results;
          w1 = emit (Printed (Got_forms (length words))) w;
          w2 = emit (Printed Going_at_random) w1
      in sampling_loop cfg srv results draws [] w2)"

subsection \<open>Observations of a run\<close>

text \<open>The record the exclusion file holds under a key, when the file holds an object.\<close>

definition store_lookup :: "world \<Rightarrow> string \<Rightarrow> json option" where
  "store_lookup w key =
     (case exclude_file w of
        Some (Text_json (JObj exclude_list)) \<Rightarrow> map_of exclude_list key
      | other \<Rightarrow> None)"

text \<open>The events of curating a form: a sentence shown, a question asked, a sense
  query, and every step of a submission.\<close>

fun is_curation :: "event \<Rightarrow> bool" where
  "is_curation (Entered_present_sentence s) = True"
| "is_curation (Prompted q) = True"
| "is_curation (Queried q) = True"
| "is_curation (Entered_add_usage_example e) = True"
| "is_curation (Claim_built e) = True"
| "is_curation (Item_written e) = True"
| "is_curation other = False"

fun is_submission :: "event \<Rightarrow> bool" where
  "is_submission (Entered_add_usage_example e) = True"
| "is_submission (Item_written e) = True"
| "is_submission other = False"

text \<open>The sentences shown to the operator and the arguments of the calls of
  \<^verbatim>\<open>save_to_exclude_list\<close>, in the order of the events.\<close>

definition presented :: "event list \<Rightarrow> string list" where
  "presented es =
     concat (map (\<lambda>e. case e of Entered_present_sentence s \<Rightarrow> [s] | other \<Rightarrow> []) es)"

definition saved :: "event list \<Rightarrow> data option list" where
  "saved es =
     concat (map (\<lambda>e. case e of Entered_save_to_exclude_list d \<Rightarrow> [d] | other \<Rightarrow> []) es)"

subsection \<open>Concrete inputs\<close>

definition row0 :: row where
  "row0 = \<lparr>l_value = wd_prefix @ ''L1'', form_value = wd_prefix @ ''L1-F1'',
            word_value = ''ord'', catLabel_value = ''noun''\<rparr>"

definition cfg0 :: config where
  "cfg0 = \<lparr>language = ''swedish'', language_code = ''sv'', sparql_results_size = 2,
           debug_json = False, debug_sentences = False\<rparr>"

text \<open>Collaborators that all answer: the entry has one sense, the corpus has no
  sentence, every write succeeds.\<close>

definition srv0 :: services where
  "srv0 =
     \<lparr>senses_endpoint =
        (\<lambda>entry lang. Inr [\<lparr>sense_value = wd_prefix @ ''L1-S1'', gloss_value = ''betydelse''\<rparr>]),
      count_endpoint = (\<lambda>entry. Inr [0]),
      get_records = (\<lambda>d. Inr []),
      fromisoformat = Some,
      build_claim = (\<lambda>e. Inr ()),
      login = Inr (),
      item_write = (\<lambda>e. Inr True),
      watch = (\<lambda>entry. Inr []),
      now_isoformat = ''2021-01-01T12:00:00'',
      int_of_str = (\<lambda>s. None)\<rparr>"

text \<open>A fresh process: no exclusion file, no input, no session.\<close>

definition w0 :: world where
  "w0 = \<lparr>exclude_file = None, stdin = [], login_instance = False, events = []\<rparr>"

text \<open>Batches as the corpus search would give them: three sentences of 5, 2 and 8
  words, and one sentence with its publication date.\<close>

definition rd0 :: result_data where
  "rd0 = \<lparr>document_id = ''H501JuU1'', date = None\<rparr>"


definition dict528 :: "(string \<times> result_data) list" where
  "dict528 = [(''a b c d e'', rd0), (''internationalisation committee'', rd0),
              (''a b c d e f g h'', rd0)]"


section \<open>Properties\<close>

subsection \<open>What a step does to the world\<close>

lemma emit_simps:
  "events (emit e w) = events w @ [e]"
  "exclude_file (emit e w) = exclude_file w"
  "stdin (emit e w) = stdin w"
  "login_instance (emit e w) = login_instance w"
  by (simp_all add: emit_def)

lemma extract_data_row0:
  "extract_data row0 =
     \<lparr>lid = ''L1'', form_id = ''L1-F1'', word = ''ord'', word_spaces = '' ord '',
      word_angle_parens = ''>ord<'', category = ''noun''\<rparr>"
  by (simp add: extract_data_def row0_def wd_prefix_def)

lemma map_of_dict_set: "map_of (dict_set k v kvs) k = Some v"
  by (induction kvs) auto

lemma in_exclude_list_world: "snd (in_exclude_list cfg d w) = w"
  by (simp add: in_exclude_list_def split: option.splits content.splits json.splits)

lemma save_events:
  "events (snd (save_to_exclude_list cfg srv (Some d) w)) =
     events w @ Entered_save_to_exclude_list (Some d) #
       (if exclude_file w = Some Text_empty then [Printed Json_data_is_null] else [])"
  by (simp add: save_to_exclude_list_def Let_def emit_def
      split: option.splits content.splits json.splits)

lemma save_stores:
  "exclude_file w = None \<or> (\<exists>m. exclude_file w = Some (Text_json (JObj m))) \<Longrightarrow>
   fst (save_to_exclude_list cfg srv (Some d) w) = Inr () \<and>
   store_lookup (snd (save_to_exclude_list cfg srv (Some d) w)) (form_id d) =
     Some (form_data cfg srv d)"
  by (auto simp add: save_to_exclude_list_def store_lookup_def Let_def emit_def map_of_dict_set)

text \<open>\<^verbatim>\<open>process_result\<close> in one piece: the corpus search fails, or the form is saved
  to the exclusion list.\<close>

lemma process_result_unfold:
  "process_result cfg srv result d w =
     (case get_records srv (extract_data result) of
        Inl x \<Rightarrow> (Inl x, w\<lparr>events := events w @
              [Printed (Trying_to_find (category (extract_data result))
                 (word (extract_data result)) (form_id (extract_data result))),
               Corpus_searched (extract_data result)]\<rparr>)
      | Inr found \<Rightarrow> save_to_exclude_list cfg srv (Some d)
           (w\<lparr>events := events w @
              [Printed (Trying_to_find (category (extract_data result))
                 (word (extract_data result)) (form_id (extract_data result))),
               Corpus_searched (extract_data result),
               Printed Excluded_no_sentences]\<rparr>))"
  by (simp add: process_result_def get_sentences_from_apis_def and_then_def say_def Let_def
      emit_def split: sum.splits)

lemma process_result_curation:
  "filter is_curation (events (snd (process_result cfg srv result d w))) =
     filter is_curation (events w)"
  by (simp add: process_result_unfold save_events split: sum.splits)

lemma process_result_submission:
  "filter is_submission (events (snd (process_result cfg srv result d w))) =
     filter is_submission (events w)"
  by (simp add: process_result_unfold save_events split: sum.splits)

subsection \<open>The exclusion store\<close>

text \<open>
  Claim C1. After \<^verbatim>\<open>save_to_exclude_list\<close> has stored a form, \<^verbatim>\<open>in_exclude_list\<close>
  should answer \<^verbatim>\<open>True\<close> for it. It does not: the list is keyed by the form id
  and the lookup compares each key with the entry id. For the form \<open>L1-F1\<close> of the entry
  \<open>L1\<close>, saved by a process that found no exclusion file, the file then holds the
  record under \<open>L1-F1\<close> with the language of the configuration, and the lookup for the
  same data answers \<^verbatim>\<open>False\<close>.
\<close>

theorem saved_form_not_found:
  "store_lookup (snd (save_to_exclude_list cfg srv (Some (extract_data row0))
       (w\<lparr>exclude_file := None\<rparr>))) ''L1-F1'' = Some (form_data cfg srv (extract_data row0))
   \<and> lang_matches cfg (form_data cfg srv (extract_data row0)) = Inr True
   \<and> fst (in_exclude_list cfg (extract_data row0)
       (snd (save_to_exclude_list cfg srv (Some (extract_data row0))
          (w\<lparr>exclude_file := None\<rparr>)))) = Inr False"
  by (simp add: extract_data_row0 in_exclude_list_def save_to_exclude_list_def emit_def
      form_data_def store_lookup_def lang_matches_def Let_def)

text \<open>
  Claim C10. When the exclusion file exists and its content is empty or is not JSON,
  both operations of the store end the process with a status that is not zero:
  \<^verbatim>\<open>save_to_exclude_list\<close> prints its error and calls \<^verbatim>\<open>exit(1)\<close> on empty content
  and dies of the \<^verbatim>\<open>JSONDecodeError\<close> on corrupt content; \<^verbatim>\<open>in_exclude_list\<close> dies
  of the \<^verbatim>\<open>JSONDecodeError\<close> in both cases. Neither goes on with an empty list.
\<close>

theorem corrupt_store_is_fatal:
  assumes "exclude_file w = Some c" and "c = Text_empty \<or> c = Text_invalid"
  shows "(\<exists>e w'. save_to_exclude_list cfg srv dopt w = (Inl e, w') \<and> exit_code e \<noteq> 0) \<and>
         (\<exists>e. in_exclude_list cfg d w = (Inl e, w) \<and> exit_code e \<noteq> 0)"
  using assms
  by (auto simp add: in_exclude_list_def save_to_exclude_list_def emit_def Let_def
      split: option.splits)

theorem corrupt_store_is_fatal_witness:
  "exclude_file (w0\<lparr>exclude_file := Some Text_empty\<rparr>) = Some Text_empty \<and>
   (\<exists>e w'. save_to_exclude_list cfg0 srv0 (Some (extract_data row0))
              (w0\<lparr>exclude_file := Some Text_empty\<rparr>) = (Inl e, w') \<and> exit_code e \<noteq> 0) \<and>
   (\<exists>e. in_exclude_list cfg0 (extract_data row0) (w0\<lparr>exclude_file := Some Text_empty\<rparr>) =
           (Inl e, w0\<lparr>exclude_file := Some Text_empty\<rparr>) \<and> exit_code e \<noteq> 0)"
  using corrupt_store_is_fatal [of "w0\<lparr>exclude_file := Some Text_empty\<rparr>" Text_empty cfg0 srv0
      "Some (extract_data row0)" "extract_data row0"]
  by simp

subsection \<open>Submitting\<close>

text \<open>
  Claim C7. Called without a publication date, \<^verbatim>\<open>add_usage_example\<close> returns
  \<^verbatim>\<open>False\<close> whatever its other arguments are. All it does is print the message: no
  statement is built, no session is opened, nothing is written, and the exclusion file,
  the input and the session are as before.
\<close>

theorem add_usage_example_without_date:
  "add_usage_example cfg srv doc sentence entry form sid wrd None w =
     (Inr False,
      w\<lparr>events := events w @
          [Entered_add_usage_example (Edit doc sentence entry form sid wrd None),
           Printed Publication_date_missing]\<rparr>)"
  by (simp add: add_usage_example_def emit_def Let_def)

subsection \<open>Processing one row\<close>

text \<open>
  Claim C2. \<^verbatim>\<open>get_sentences_from_apis\<close> drops what the corpus search returns and
  gives \<^verbatim>\<open>None\<close>, so \<^verbatim>\<open>process_result\<close> always takes the branch of no suitable
  sentence: it is the call of \<^verbatim>\<open>save_to_exclude_list\<close> for the form, after the three
  events of the search and the message. No sentence is presented, no question asked, no
  sense queried and nothing submitted; and when the exclusion file is absent or holds an
  object, the form is in the file afterwards.
\<close>

theorem process_result_only_excludes:
  assumes "get_records srv (extract_data result) = Inr found"
  shows "fst (get_sentences_from_apis srv result w) = Inr None \<and>
    process_result cfg srv result d w =
      save_to_exclude_list cfg srv (Some d)
        (w\<lparr>events := events w @
              [Printed (Trying_to_find (category (extract_data result))
                 (word (extract_data result)) (form_id (extract_data result))),
               Corpus_searched (extract_data result),
               Printed Excluded_no_sentences]\<rparr>) \<and>
    filter is_curation (events (snd (process_result cfg srv result d w))) =
      filter is_curation (events w) \<and>
    (exclude_file w = None \<or> (\<exists>m. exclude_file w = Some (Text_json (JObj m))) \<longrightarrow>
       fst (process_result cfg srv result d w) = Inr () \<and>
       store_lookup (snd (process_result cfg srv result d w)) (form_id d) =
         Some (form_data cfg srv d))"
proof -
  have a: "fst (get_sentences_from_apis srv result w) = Inr None"
    using assms by (simp add: get_sentences_from_apis_def Let_def)
  have b: "process_result cfg srv result d w =
      save_to_exclude_list cfg srv (Some d)
        (w\<lparr>events := events w @
              [Printed (Trying_to_find (category (extract_data result))
                 (word (extract_data result)) (form_id (extract_data result))),
               Corpus_searched (extract_data result),
               Printed Excluded_no_sentences]\<rparr>)"
    using assms by (simp add: process_result_unfold)
  have c: "exclude_file w = None \<or> (\<exists>m. exclude_file w = Some (Text_json (JObj m))) \<Longrightarrow>
       fst (process_result cfg srv result d w) = Inr () \<and>
       store_lookup (snd (process_result cfg srv result d w)) (form_id d) =
         Some (form_data cfg srv d)"
    unfolding b by (rule save_stores) simp
  show ?thesis using a b c process_result_curation by blast
qed

theorem process_result_only_excludes_witness:
  "get_records srv0 (extract_data row0) = Inr [] \<and>
   fst (get_sentences_from_apis srv0 row0 w0) = Inr None \<and>
   filter is_curation (events (snd (process_result cfg0 srv0 row0 (extract_data row0) w0))) = [] \<and>
   fst (process_result cfg0 srv0 row0 (extract_data row0) w0) = Inr () \<and>
   store_lookup (snd (process_result cfg0 srv0 row0 (extract_data row0) w0)) ''L1-F1'' =
     Some (form_data cfg0 srv0 (extract_data row0))"
proof -
  have g: "get_records srv0 (extract_data row0) = Inr []"
    by (simp add: srv0_def)
  have f: "exclude_file w0 = None" and e: "events w0 = []"
    by (simp_all add: w0_def)
  from process_result_only_excludes [OF g, of w0 cfg0 "extract_data row0"] f
  have "fst (get_sentences_from_apis srv0 row0 w0) = Inr None \<and>
    filter is_curation (events (snd (process_result cfg0 srv0 row0 (extract_data row0) w0))) =
      filter is_curation (events w0) \<and>
    fst (process_result cfg0 srv0 row0 (extract_data row0) w0) = Inr () \<and>
    store_lookup (snd (process_result cfg0 srv0 row0 (extract_data row0) w0))
      (form_id (extract_data row0)) = Some (form_data cfg0 srv0 (extract_data row0))"
    by blast
  then show ?thesis using g by (simp add: e extract_data_row0)
qed

subsection \<open>The sampling loop\<close>

lemma sampling_submission:
  "filter is_submission (events (snd (sampling_loop cfg srv results draws earlier w))) =
     filter is_submission (events w)"
proof (induction draws arbitrary: earlier w)
  case Nil
  then show ?case by (simp add: emit_def)
next
  case (Cons n draws)
  show ?case
  proof (cases "int (length earlier) = sparql_results_size cfg \<or> results = []
      \<or> results ! (n mod length results) \<in> set earlier")
    case True
    then show ?thesis using Cons.IH[of earlier w] by (auto simp add: emit_def)
  next
    case False
    let ?r = "results ! (n mod length results)"
    obtain a where a: "in_exclude_list cfg (extract_data ?r) w = (a, w)"
      using in_exclude_list_world[of cfg "extract_data ?r" w]
      by (cases "in_exclude_list cfg (extract_data ?r) w") simp
    obtain b w2 where b: "process_result cfg srv ?r (extract_data ?r) w = (b, w2)"
      by (cases "process_result cfg srv ?r (extract_data ?r) w")
    have w2: "filter is_submission (events w2) = filter is_submission (events w)"
      using process_result_submission[of cfg srv ?r "extract_data ?r" w] b by simp
    show ?thesis
      using False a b w2 Cons.IH[of "earlier @ [?r]" w] Cons.IH[of "earlier @ [?r]" w2]
      by (simp add: Let_def split: sum.splits bool.splits)
  qed
qed

text \<open>
  Claim C3. The sampling loop never submits a usage example for a form that the
  exclusion store held, with the language of the run, when its row was drawn. It submits
  none at all: whatever the rows, the draws, the collaborators and the store are, a run
  of \<^verbatim>\<open>process_lexeme_data\<close>, as far as it gets, adds no call of
  \<^verbatim>\<open>add_usage_example\<close> and no written item to the events.
\<close>

theorem no_submission_from_sampling:
  "filter is_submission (events (snd (process_lexeme_data cfg srv results draws w))) =
     filter is_submission (events w)"
  by (simp add: process_lexeme_data_def Let_def sampling_submission emit_def)

lemma sampling_spins:
  "sampling_loop cfg0 srv [row0] draws [row0] w = (None, w)"
  by (induction draws) (simp_all add: cfg0_def)

text \<open>
  Claim C4. The loop should stop with the completion message once each of the \<open>N\<close>
  rows was visited. It stops when the number of rows visited equals the setting
  \<^verbatim>\<open>config.sparql_results_size\<close>, not the number of rows. With one row and the
  setting 2 (the query returned fewer rows than its limit), the row is visited and
  saved, and then every pass draws it again: whatever numbers are drawn and however
  many, the loop is still running, and the completion message is never printed.
\<close>

theorem one_row_never_completes:
  "fst (process_lexeme_data cfg0 srv0 [row0] draws w0) = None \<and>
   Printed No_more_results \<notin> set (events (snd (process_lexeme_data cfg0 srv0 [row0] draws w0)))"
proof (cases draws)
  case Nil
  then show ?thesis by (simp add: process_lexeme_data_def Let_def cfg0_def w0_def emit_def)
next
  case (Cons n ds)
  let ?w2 = "emit (Printed Going_at_random) (emit (Printed (Got_forms 1)) w0)"
  have f: "exclude_file ?w2 = None" by (simp add: emit_simps w0_def)
  have i: "in_exclude_list cfg0 (extract_data row0) ?w2 = (Inr False, ?w2)"
    using f by (simp add: in_exclude_list_def)
  have "fst (process_result cfg0 srv0 row0 (extract_data row0) ?w2) = Inr ()"
    using f by (simp add: process_result_unfold srv0_def save_to_exclude_list_def Let_def emit_simps)
  then obtain w3 where p: "process_result cfg0 srv0 row0 (extract_data row0) ?w2 = (Inr (), w3)"
    by (cases "process_result cfg0 srv0 row0 (extract_data row0) ?w2") simp
  have e: "Printed No_more_results \<notin> set (events w3)"
    using p process_result_unfold [of cfg0 srv0 row0 "extract_data row0" ?w2] f
    by (auto simp add: srv0_def save_to_exclude_list_def Let_def emit_def w0_def)
  have "process_lexeme_data cfg0 srv0 [row0] draws w0 = sampling_loop cfg0 srv0 [row0] ds [row0] w3"
    using Cons i p by (simp add: process_lexeme_data_def Let_def) (simp add: cfg0_def)
  then show ?thesis using e by (simp add: sampling_spins)
qed

subsection \<open>The batch of sentences\<close>

lemma process_result_presented:
  "presented (events (snd (process_result cfg srv result d w))) = presented (events w)"
  by (simp add: process_result_unfold save_events presented_def split: sum.splits)

lemma process_result_saved:
  "get_records srv (extract_data result) = Inr found \<Longrightarrow>
   saved (events (snd (process_result cfg srv result d w))) = saved (events w) @ [Some d]"
  by (simp add: process_result_unfold save_events saved_def)


text \<open>
  Claim C5. A batch of candidate sentences should be presented in ascending order of
  word count. It is not presented at all: \<^verbatim>\<open>get_sentences_from_apis\<close> has no
  \<^verbatim>\<open>return\<close> statement, so the batch the corpus search gave is dropped and
  \<^verbatim>\<open>process_result\<close> never enters the loop that sorts and presents. When the search
  returns the three sentences of 5, 2 and 8 words, \<^verbatim>\<open>process_result\<close> shows no
  sentence to the operator and saves the form to the exclusion list.
\<close>

theorem batch_never_presented:
  "map count_words (map fst dict528) = [5, 2, 8] \<and>
   get_records (srv\<lparr>get_records := (\<lambda>x. Inr dict528)\<rparr>) (extract_data result) = Inr dict528 \<and>
   presented (events (snd (process_result cfg (srv\<lparr>get_records := (\<lambda>x. Inr dict528)\<rparr>)
      result d w))) = presented (events w) \<and>
   saved (events (snd (process_result cfg (srv\<lparr>get_records := (\<lambda>x. Inr dict528)\<rparr>)
      result d w))) = saved (events w) @ [Some d]"
proof -
  have a: "map count_words (map fst dict528) = [5, 2, 8]"
    by (simp add: dict528_def count_words_def strip_def isspace_def)
  have g: "get_records (srv\<lparr>get_records := (\<lambda>x. Inr dict528)\<rparr>) (extract_data result) =
      Inr dict528"
    by simp
  show ?thesis
    using a g process_result_saved [OF g] by (simp add: process_result_presented)
qed




subsection \<open>The resolver without senses\<close>

text \<open>
  Claim C9. When the sense query of an entry returns no row, the resolver should look
  for other senses of the entry, tell the operator and return no match. It ends the
  process instead: \<^verbatim>\<open>fetch_senses\<close> goes through \<^verbatim>\<open>sparql_query\<close>, which prints
  that no lexemes were found and calls \<^verbatim>\<open>exit(0)\<close> on an empty result. Whatever the
  entry, the sentence and the other collaborators are, \<^verbatim>\<open>prompt_sense_approval\<close>
  then gives the exit with status 0, after the query and that message and nothing else.
\<close>

theorem empty_sense_fetch_exits:
  "prompt_sense_approval cfg (srv\<lparr>senses_endpoint := (\<lambda>entry lang. Inr [])\<rparr>) sentence d w =
     (Inl (Exit 0),
      w\<lparr>events := events w @
          [Queried (Senses_query (lid d) (language_code cfg)),
           Printed (No_lexemes_found (language cfg))]\<rparr>)"
  by (simp add: prompt_sense_approval_def fetch_senses_def sparql_query_def and_then_def
      emit_def Let_def)

end
